theory Spec2Isabelle
  imports Complex_Main "HOL-Library.Char_ord" "HOL-Library.List_Lexorder"
begin

section \<open>Errors (errors.go)\<close>

text \<open>
  The package's sentinel errors, each created once by \<open>errors.New\<close>. Two sentinels are
  the same error exactly when they are the same variable, so a datatype of names models
  their identity.
\<close>

datatype sentinel =
    ErrLicenseNotFound
  | ErrLicenseInactive
  | ErrLicenseExpired
  | ErrActivationLimit
  | ErrSignatureInvalid
  | ErrPublicKeyInvalid
  | ErrLicenseFileInvalid
  | ErrCPULimitExceeded
  | ErrNodeLimitExceeded

fun sentinel_text :: "sentinel \<Rightarrow> string" where
  "sentinel_text ErrLicenseNotFound = ''license not found''"
| "sentinel_text ErrLicenseInactive = ''license is not active''"
| "sentinel_text ErrLicenseExpired = ''license expired''"
| "sentinel_text ErrActivationLimit = ''activation limit reached''"
| "sentinel_text ErrSignatureInvalid = ''signature verification failed''"
| "sentinel_text ErrPublicKeyInvalid = ''invalid public key''"
| "sentinel_text ErrLicenseFileInvalid = ''invalid license file format''"
| "sentinel_text ErrCPULimitExceeded = ''CPU limit exceeded''"
| "sentinel_text ErrNodeLimitExceeded = ''node limit exceeded''"

record ServerError =
  StatusCode :: int
  Code :: string
  Message :: string

text \<open>
  The error values the package produces:
  \<^item> \<open>Sentinel s\<close>: one of the sentinels above;
  \<^item> \<open>Wrapf msg e\<close>: the result of \<open>fmt.Errorf\<close> with one \<open>%w\<close> verb, holding the
    formatted text \<open>msg\<close> and the wrapped error \<open>e\<close>;
  \<^item> \<open>Server se\<close>: a \<open>*ServerError\<close>;
  \<^item> \<open>Mapped s se\<close>: a \<open>*mappedError\<close> with its two fields;
  \<^item> \<open>Plain msg\<close>: an error without structure of interest (\<open>fmt.Errorf\<close> without
    \<open>%w\<close>, or an error of a library: JSON, base64, HTTP, a storage driver), of which
    only the text is kept.
\<close>

datatype error =
    Sentinel sentinel
  | Wrapf string error
  | Server ServerError
  | Mapped sentinel ServerError
  | Plain string

text \<open>Decimal rendering of an integer, as the verb \<open>%d\<close> prints it.\<close>

fun digits :: "nat \<Rightarrow> string" where
  "digits n = (if n < 10 then [''0123456789'' ! n]
               else digits (n div 10) @ [''0123456789'' ! (n mod 10)])"

declare digits.simps [simp del]

definition itoa :: "int \<Rightarrow> string" where
  "itoa i = (if i < 0 then ''-'' @ digits (nat (- i)) else digits (nat i))"

text \<open>The method \<open>Error()\<close> of each error value.\<close>

fun error_text :: "error \<Rightarrow> string" where
  "error_text (Sentinel s) = sentinel_text s"
| "error_text (Wrapf msg e) = msg"
| "error_text (Server se) =
     ''server error '' @ itoa (StatusCode se) @ '': ['' @ Code se @ ''] '' @ Message se"
| "error_text (Mapped s se) = sentinel_text s"
| "error_text (Plain msg) = msg"

text \<open>
  \<open>errors.Is(err, target)\<close> for a sentinel target: the standard library compares the
  error with the target, then asks the error's own \<open>Is\<close> method if it has one, then
  continues with \<open>Unwrap()\<close>. A \<open>mappedError\<close> has the method
  \<open>Is(target) = (target == e.sentinel)\<close> and unwraps to its sentinel; the result of
  \<open>fmt.Errorf\<close> unwraps to the error given for \<open>%w\<close>; a \<open>*ServerError\<close> has neither
  method. For a \<open>mappedError\<close> the second disjunct is the comparison of the unwrapped
  sentinel with the target, where the chain ends.
\<close>

fun errors_Is :: "error \<Rightarrow> sentinel \<Rightarrow> bool" where
  "errors_Is (Sentinel s) target = (s = target)"
| "errors_Is (Wrapf msg e) target = errors_Is e target"
| "errors_Is (Server se) target = False"
| "errors_Is (Mapped s se) target = (target = s \<or> s = target)"
| "errors_Is (Plain msg) target = False"

text \<open>
  \<open>errors.As(err, &se)\<close> for a target of type \<open>**ServerError\<close>: the standard library
  assigns the error itself when it is a \<open>*ServerError\<close>, else asks the error's own
  \<open>As\<close> method, else continues with \<open>Unwrap()\<close>. \<open>mappedError.As\<close> stores
  \<open>e.server\<close>. The result is \<open>None\<close> when \<open>errors.As\<close> returns false.
\<close>

fun errors_As_ServerError :: "error \<Rightarrow> ServerError option" where
  "errors_As_ServerError (Sentinel s) = None"
| "errors_As_ServerError (Wrapf msg e) = errors_As_ServerError e"
| "errors_As_ServerError (Server se) = Some se"
| "errors_As_ServerError (Mapped s se) = Some se"
| "errors_As_ServerError (Plain msg) = None"

text \<open>\<open>mapServerError\<close>: the \<open>switch\<close> on \<open>se.Code\<close>, case by case.\<close>

definition mapServerError :: "ServerError \<Rightarrow> error" where
  "mapServerError se =
     (if Code se = ''NOT_FOUND'' then Mapped ErrLicenseNotFound se
      else if Code se = ''FORBIDDEN'' then
        (if Message se = ''license expired'' then Mapped ErrLicenseExpired se
         else Mapped ErrLicenseInactive se)
      else if Code se = ''ACTIVATION_LIMIT'' then Mapped ErrActivationLimit se
      else Server se)"

section \<open>Hardware limits (license.go, second half)\<close>

text \<open>
  A value of the features map, of type \<open>interface{}\<close>. \<open>encoding/json\<close> decodes every
  JSON number to \<open>float64\<close>; callers building the map by hand may store \<open>int\<close> or
  \<open>int64\<close>. A finite \<open>float64\<close> is a real number and is modelled as one. \<open>int\<close> is
  the 64-bit integer of the usual platforms; the functions below only compare and copy
  such values, so they are modelled as integers.
\<close>

datatype any =
    AFloat64 real
  | AInt int
  | AInt64 int
  | AString string
  | ABool bool
  | ANil

type_synonym features = "string \<rightharpoonup> any"

record HardwareLimits =
  MaxCPUPerNode :: int
  MaxNodes :: int

text \<open>
  The conversion \<open>int(n)\<close> of a \<open>float64\<close> discards the fraction (truncation toward
  zero). When the truncated value does not fit 64 bits the language leaves the result
  to the implementation; the parameter \<open>impl\<close> stands for that choice.
\<close>

definition truncate_toward_zero :: "real \<Rightarrow> int" where
  "truncate_toward_zero x = (if 0 \<le> x then \<lfloor>x\<rfloor> else - \<lfloor>- x\<rfloor>)"

definition float64_to_int :: "(real \<Rightarrow> int) \<Rightarrow> real \<Rightarrow> int" where
  "float64_to_int impl x =
     (let t = truncate_toward_zero x
      in if - (2 ^ 63) \<le> t \<and> t < 2 ^ 63 then t else impl x)"

fun toInt :: "(real \<Rightarrow> int) \<Rightarrow> any \<Rightarrow> int" where
  "toInt impl (AFloat64 n) = float64_to_int impl n"
| "toInt impl (AInt n) = n"
| "toInt impl (AInt64 n) = n"
| "toInt impl v = 0"

text \<open>
  \<open>ExtractHardwareLimits\<close>. A nil map has no keys, so the test \<open>features == nil\<close> is
  covered by the two lookups failing.
\<close>

definition ExtractHardwareLimits :: "(real \<Rightarrow> int) \<Rightarrow> features \<Rightarrow> HardwareLimits" where
  "ExtractHardwareLimits impl fs =
     \<lparr> MaxCPUPerNode = (case fs ''max_cpu_per_node'' of Some v \<Rightarrow> toInt impl v | None \<Rightarrow> 0),
       MaxNodes = (case fs ''max_nodes'' of Some v \<Rightarrow> toInt impl v | None \<Rightarrow> 0) \<rparr>"

text \<open>
  \<open>CheckCPU\<close> reads \<open>runtime.NumCPU()\<close>; the reading is the first argument. The result
  is \<open>None\<close> for a nil error.
\<close>

definition CheckCPU :: "int \<Rightarrow> HardwareLimits \<Rightarrow> error option" where
  "CheckCPU cpuCount limits =
     (if MaxCPUPerNode limits \<le> 0 then None
      else if cpuCount > MaxCPUPerNode limits then
        Some (Wrapf (sentinel_text ErrCPULimitExceeded @ '': machine has '' @ itoa cpuCount
                       @ '' CPUs, limit is '' @ itoa (MaxCPUPerNode limits))
                (Sentinel ErrCPULimitExceeded))
      else None)"

definition CheckNodeCount :: "HardwareLimits \<Rightarrow> int \<Rightarrow> error option" where
  "CheckNodeCount limits currentNodes =
     (if MaxNodes limits \<le> 0 then None
      else if currentNodes > MaxNodes limits then
        Some (Wrapf (sentinel_text ErrNodeLimitExceeded @ '': '' @ itoa currentNodes
                       @ '' nodes active, limit is '' @ itoa (MaxNodes limits))
                (Sentinel ErrNodeLimitExceeded))
      else None)"

section \<open>Offline verification (offline.go)\<close>

text \<open>
  A \<open>time.Time\<close> is modelled by its instant, counted from the zero time, so that
  \<open>IsZero\<close> is equality with 0 and \<open>Before\<close> is the strict order of instants. The
  unit is left open; where a store keeps timestamps, instants are taken at the
  resolution the store keeps.
\<close>

type_synonym time = int

definition IsZero :: "time \<Rightarrow> bool" where
  "IsZero t = (t = 0)"

definition Before :: "time \<Rightarrow> time \<Rightarrow> bool" where
  "Before t u = (t < u)"

text \<open>Byte slices and strings are both lists of bytes.\<close>

record OfflineLicenseFile =
  License :: string
  Signature :: string
  PublicKey :: string

record OfflineLicenseData =
  data_LicenseKey :: string
  data_CompanyID :: string
  data_AppID :: string
  data_Plan :: string
  data_Features :: features
  data_ExpiresAt :: time
  data_IssuedAt :: time

record OfflineValidator =
  trustedPublicKey :: string

text \<open>
  The library functions \<open>Verify\<close> calls are parameters: the two uses of
  \<open>json.Unmarshal\<close> (into an \<open>OfflineLicenseFile\<close> and into an
  \<open>OfflineLicenseData\<close>), \<open>base64.StdEncoding.DecodeString\<close> and
  \<open>ed25519.Verify\<close> (public key, message, signature). A failing call gives \<open>Inl\<close>
  with the text of the library's error.
\<close>

record codec =
  json_Unmarshal_file :: "string \<Rightarrow> string + OfflineLicenseFile"
  json_Unmarshal_data :: "string \<Rightarrow> string + OfflineLicenseData"
  base64_DecodeString :: "string \<Rightarrow> string + string"
  ed25519_Verify :: "string \<Rightarrow> string \<Rightarrow> string \<Rightarrow> bool"

definition ed25519_PublicKeySize :: nat where
  "ed25519_PublicKeySize = 32"

text \<open>
  \<open>Verify\<close> returns a pair (data, error) in which both components can be present:
  \<open>None\<close> is the nil pointer or the nil error. \<open>now\<close> is the reading of
  \<open>time.Now()\<close> at the expiration check.
\<close>

definition Verify ::
  "codec \<Rightarrow> time \<Rightarrow> OfflineValidator \<Rightarrow> string \<Rightarrow> OfflineLicenseData option \<times> error option"
where
  "Verify lib now v raw =
     (case json_Unmarshal_file lib raw of
        Inl e \<Rightarrow>
          (None, Some (Wrapf (sentinel_text ErrLicenseFileInvalid @ '': '' @ e)
                         (Sentinel ErrLicenseFileInvalid)))
      | Inr file \<Rightarrow>
          if length (License file) = 0 \<or> Signature file = [] then
            (None, Some (Sentinel ErrLicenseFileInvalid))
          else
            let pubKeyBase64 =
                  (if trustedPublicKey v \<noteq> [] then trustedPublicKey v else PublicKey file)
            in
            if pubKeyBase64 = [] then (None, Some (Sentinel ErrPublicKeyInvalid))
            else
              (case base64_DecodeString lib pubKeyBase64 of
                 Inl e \<Rightarrow>
                   (None, Some (Wrapf (sentinel_text ErrPublicKeyInvalid @ '': base64 decode: '' @ e)
                                  (Sentinel ErrPublicKeyInvalid)))
               | Inr pubKeyBytes \<Rightarrow>
                   if length pubKeyBytes \<noteq> ed25519_PublicKeySize then
                     (None, Some (Wrapf (sentinel_text ErrPublicKeyInvalid @ '': key length ''
                                           @ itoa (int (length pubKeyBytes)) @ '', expected ''
                                           @ itoa (int ed25519_PublicKeySize))
                                    (Sentinel ErrPublicKeyInvalid)))
                   else
                     (case base64_DecodeString lib (Signature file) of
                        Inl e \<Rightarrow>
                          (None, Some (Wrapf (sentinel_text ErrSignatureInvalid
                                                @ '': signature decode: '' @ e)
                                         (Sentinel ErrSignatureInvalid)))
                      | Inr sigBytes \<Rightarrow>
                          if \<not> ed25519_Verify lib pubKeyBytes (License file) sigBytes then
                            (None, Some (Sentinel ErrSignatureInvalid))
                          else
                            (case json_Unmarshal_data lib (License file) of
                               Inl e \<Rightarrow>
                                 (None, Some (Wrapf (sentinel_text ErrLicenseFileInvalid
                                                       @ '': parse license data: '' @ e)
                                                (Sentinel ErrLicenseFileInvalid)))
                             | Inr data \<Rightarrow>
                                 if \<not> IsZero (data_ExpiresAt data)
                                    \<and> Before (data_ExpiresAt data) now
                                 then (Some data, Some (Sentinel ErrLicenseExpired))
                                 else (Some data, None)))))"

section \<open>Node registry (noderegistry: registry.go, postgres.go, the MongoDB backend)\<close>

record NodeInfo =
  Fingerprint :: string
  Hostname :: string
  IP :: string
  OS :: string
  LicenseKey :: string
  RegisteredAt :: time
  LastSeenAt :: time

text \<open>
  The part of the interface \<open>NodeRegistry\<close> the claims are about. A method takes the
  state of the backing store and returns its result with the state after the call.
\<close>

record 's NodeRegistry =
  Register :: "NodeInfo \<Rightarrow> 's \<Rightarrow> (error + NodeInfo) \<times> 's"
  Deregister :: "string \<Rightarrow> 's \<Rightarrow> error option \<times> 's"
  Count :: "string \<Rightarrow> 's \<Rightarrow> (error + int) \<times> 's"
  List_nodes :: "string \<Rightarrow> 's \<Rightarrow> (error + NodeInfo list) \<times> 's"

text \<open>
  What a backend sees of its store: the rows of the table (the documents of the
  collection) in the store's own order, the reading of \<open>time.Now()\<close> on the calling
  host, and the outcomes of the coming driver calls, first call first: \<open>None\<close> when the
  store executes the statement, \<open>Some msg\<close> when the driver returns an error with that
  text and the statement has no effect (a cancelled context, a lost connection). Once
  the list is used up every call succeeds.
\<close>

record db =
  rows :: "NodeInfo list"
  clock :: time
  faults :: "string option list"

definition driver_call :: "db \<Rightarrow> string option \<times> db" where
  "driver_call d =
     (case faults d of [] \<Rightarrow> (None, d) | f # fs \<Rightarrow> (f, d\<lparr>faults := fs\<rparr>))"

subsection \<open>PostgreSQL backend\<close>

text \<open>
  The statement of \<open>Register\<close>: \<open>INSERT ... ON CONFLICT (fingerprint) DO UPDATE SET
  hostname, ip, os, license_key, last_seen_at ... RETURNING registered_at,
  last_seen_at\<close>, with \<open>$6 = now\<close> for both timestamps of a new row. The result is the
  row as stored and the table after the statement.
\<close>

fun pg_upsert :: "time \<Rightarrow> NodeInfo \<Rightarrow> NodeInfo list \<Rightarrow> NodeInfo \<times> NodeInfo list" where
  "pg_upsert now node [] =
     (let r = \<lparr> Fingerprint = Fingerprint node, Hostname = Hostname node, IP = IP node,
                 OS = OS node, LicenseKey = LicenseKey node,
                 RegisteredAt = now, LastSeenAt = now \<rparr>
      in (r, [r]))"
| "pg_upsert now node (r # rs) =
     (if Fingerprint r = Fingerprint node then
        (let r' = r\<lparr> Hostname := Hostname node, IP := IP node, OS := OS node,
                      LicenseKey := LicenseKey node, LastSeenAt := now \<rparr>
         in (r', r' # rs))
      else (let (r', rs') = pg_upsert now node rs in (r', r # rs')))"

text \<open>
  \<open>Scan(&node.RegisteredAt, &node.LastSeenAt)\<close> writes the two returned columns into
  the argument, which is then returned.
\<close>

definition PostgresRegistry_Register :: "NodeInfo \<Rightarrow> db \<Rightarrow> (error + NodeInfo) \<times> db" where
  "PostgresRegistry_Register node d =
     (let now = clock d; (err, d1) = driver_call d
      in case err of
           Some e \<Rightarrow> (Inl (Wrapf (''register node: '' @ e) (Plain e)), d1)
         | None \<Rightarrow>
             (let (stored, rows') = pg_upsert now node (rows d1)
              in (Inr (node\<lparr> RegisteredAt := RegisteredAt stored,
                               LastSeenAt := LastSeenAt stored \<rparr>),
                  d1\<lparr>rows := rows'\<rparr>)))"

text \<open>\<open>DELETE FROM t WHERE fingerprint = $1\<close>.\<close>

definition PostgresRegistry_Deregister :: "string \<Rightarrow> db \<Rightarrow> error option \<times> db" where
  "PostgresRegistry_Deregister fingerprint d =
     (let (err, d1) = driver_call d
      in case err of
           Some e \<Rightarrow> (Some (Wrapf (''deregister node: '' @ e) (Plain e)), d1)
         | None \<Rightarrow> (None, d1\<lparr>rows := filter (\<lambda>r. Fingerprint r \<noteq> fingerprint) (rows d1)\<rparr>))"

text \<open>\<open>SELECT COUNT(*) FROM t WHERE license_key = $1\<close>.\<close>

definition PostgresRegistry_Count :: "string \<Rightarrow> db \<Rightarrow> (error + int) \<times> db" where
  "PostgresRegistry_Count licenseKey d =
     (let (err, d1) = driver_call d
      in case err of
           Some e \<Rightarrow> (Inl (Wrapf (''count nodes: '' @ e) (Plain e)), d1)
         | None \<Rightarrow> (Inr (int (length (filter (\<lambda>r. LicenseKey r = licenseKey) (rows d1)))), d1))"

text \<open>
  \<open>SELECT ... FROM t WHERE license_key = $1 ORDER BY registered_at\<close>. Among rows with
  equal \<open>registered_at\<close> the database may answer in any order; the model keeps the
  order of the table for them.
\<close>

definition PostgresRegistry_List :: "string \<Rightarrow> db \<Rightarrow> (error + NodeInfo list) \<times> db" where
  "PostgresRegistry_List licenseKey d =
     (let (err, d1) = driver_call d
      in case err of
           Some e \<Rightarrow> (Inl (Wrapf (''list nodes: '' @ e) (Plain e)), d1)
         | None \<Rightarrow>
             (Inr (sort_key RegisteredAt (filter (\<lambda>r. LicenseKey r = licenseKey) (rows d1))), d1))"

definition PostgresRegistry :: "db NodeRegistry" where
  "PostgresRegistry =
     \<lparr> Register = PostgresRegistry_Register, Deregister = PostgresRegistry_Deregister,
       Count = PostgresRegistry_Count, List_nodes = PostgresRegistry_List \<rparr>"

subsection \<open>MongoDB backend\<close>

text \<open>
  \<open>FindOneAndUpdate\<close> with the filter \<open>{fingerprint}\<close>, the update
  \<open>{$set: {hostname, ip, os, license_key, last_seen_at: now}, $setOnInsert:
  {registered_at: now}}\<close>, \<open>upsert\<close> and \<open>ReturnDocument = After\<close>: the first document
  that matches the filter is updated; when none matches, a document is inserted with
  the filter's field and both parts of the update. The result is the document after
  the update and the collection after it.
\<close>

fun mongo_FindOneAndUpdate ::
  "time \<Rightarrow> NodeInfo \<Rightarrow> NodeInfo list \<Rightarrow> NodeInfo \<times> NodeInfo list"
where
  "mongo_FindOneAndUpdate now node [] =
     (let doc = \<lparr> Fingerprint = Fingerprint node, Hostname = Hostname node, IP = IP node,
                   OS = OS node, LicenseKey = LicenseKey node,
                   RegisteredAt = now, LastSeenAt = now \<rparr>
      in (doc, [doc]))"
| "mongo_FindOneAndUpdate now node (doc # docs) =
     (if Fingerprint doc = Fingerprint node then
        (let doc' = doc\<lparr> Hostname := Hostname node, IP := IP node, OS := OS node,
                          LicenseKey := LicenseKey node, LastSeenAt := now \<rparr>
         in (doc', doc' # docs))
      else (let (doc', docs') = mongo_FindOneAndUpdate now node docs in (doc', doc # docs')))"

text \<open>\<open>Decode(&result)\<close> fills a fresh \<open>NodeInfo\<close> from the returned document.\<close>

definition MongoRegistry_Register :: "NodeInfo \<Rightarrow> db \<Rightarrow> (error + NodeInfo) \<times> db" where
  "MongoRegistry_Register node d =
     (let now = clock d; (err, d1) = driver_call d
      in case err of
           Some e \<Rightarrow> (Inl (Wrapf (''register node: '' @ e) (Plain e)), d1)
         | None \<Rightarrow>
             (let (result, docs') = mongo_FindOneAndUpdate now node (rows d1)
              in (Inr result, d1\<lparr>rows := docs'\<rparr>)))"

text \<open>\<open>DeleteOne\<close> removes the first document that matches the filter.\<close>

fun mongo_DeleteOne :: "string \<Rightarrow> NodeInfo list \<Rightarrow> NodeInfo list" where
  "mongo_DeleteOne fingerprint [] = []"
| "mongo_DeleteOne fingerprint (doc # docs) =
     (if Fingerprint doc = fingerprint then docs else doc # mongo_DeleteOne fingerprint docs)"

definition MongoRegistry_Deregister :: "string \<Rightarrow> db \<Rightarrow> error option \<times> db" where
  "MongoRegistry_Deregister fingerprint d =
     (let (err, d1) = driver_call d
      in case err of
           Some e \<Rightarrow> (Some (Wrapf (''deregister node: '' @ e) (Plain e)), d1)
         | None \<Rightarrow> (None, d1\<lparr>rows := mongo_DeleteOne fingerprint (rows d1)\<rparr>))"

definition MongoRegistry_Count :: "string \<Rightarrow> db \<Rightarrow> (error + int) \<times> db" where
  "MongoRegistry_Count licenseKey d =
     (let (err, d1) = driver_call d
      in case err of
           Some e \<Rightarrow> (Inl (Wrapf (''count nodes: '' @ e) (Plain e)), d1)
         | None \<Rightarrow> (Inr (int (length (filter (\<lambda>r. LicenseKey r = licenseKey) (rows d1)))), d1))"

text \<open>
  \<open>Find\<close> with the filter \<open>{license_key}\<close> and no options: no sort is requested.
  \<open>NewMongoRegistry\<close> always creates the index \<open>{license_key, last_seen_at}\<close>
  (\<open>ensureIndexes\<close>), and the filter is a prefix of it, so the store answers from that
  index: the documents of the license come in the order of \<open>last_seen_at\<close>, documents
  with equal \<open>last_seen_at\<close> in the order of the collection.
\<close>

definition MongoRegistry_List :: "string \<Rightarrow> db \<Rightarrow> (error + NodeInfo list) \<times> db" where
  "MongoRegistry_List licenseKey d =
     (let (err, d1) = driver_call d
      in case err of
           Some e \<Rightarrow> (Inl (Wrapf (''list nodes: '' @ e) (Plain e)), d1)
         | None \<Rightarrow>
             (Inr (sort_key LastSeenAt (filter (\<lambda>r. LicenseKey r = licenseKey) (rows d1))), d1))"

definition MongoRegistry :: "db NodeRegistry" where
  "MongoRegistry =
     \<lparr> Register = MongoRegistry_Register, Deregister = MongoRegistry_Deregister,
       Count = MongoRegistry_Count, List_nodes = MongoRegistry_List \<rparr>"

section \<open>Fingerprint (fingerprint.go)\<close>

text \<open>
  What \<open>GenerateFingerprint\<close>, \<open>CheckCPU\<close> and the manager read from the host: the
  environment variable \<open>CNW_FINGERPRINT\<close> (empty when unset), the result of
  \<open>os.Hostname()\<close>, the result of \<open>net.Interfaces()\<close> (for each interface whether
  the loopback flag is set and the text of its hardware address), \<open>runtime.GOOS\<close>,
  \<open>runtime.GOARCH\<close>, the content of \<open>/etc/machine-id\<close> (\<open>None\<close> when it cannot be
  read) and \<open>runtime.NumCPU()\<close>. The SHA-256 digest printed with \<open>%x\<close> and
  \<open>strings.TrimSpace\<close> are library functions and are fields too.
\<close>

record host =
  env_CNW_FINGERPRINT :: string
  os_Hostname :: "string + string"
  net_Interfaces :: "string + (bool \<times> string) list"
  GOOS :: string
  GOARCH :: string
  machine_id :: "string option"
  NumCPU :: int
  sha256_hex :: "string \<Rightarrow> string"
  TrimSpace :: "string \<Rightarrow> string"

fun Join :: "string list \<Rightarrow> string \<Rightarrow> string" where
  "Join [] sep = []"
| "Join [x] sep = x"
| "Join (x # y # ys) sep = x @ sep @ Join (y # ys) sep"

definition getMACAddresses :: "host \<Rightarrow> string + string list" where
  "getMACAddresses h =
     (case net_Interfaces h of
        Inl e \<Rightarrow> Inl e
      | Inr ifaces \<Rightarrow>
          Inr (sort (filter (\<lambda>mac. mac \<noteq> [])
                       (map snd (filter (\<lambda>iface. \<not> fst iface) ifaces)))))"

definition GenerateFingerprint :: "host \<Rightarrow> error + string" where
  "GenerateFingerprint h =
     (if env_CNW_FINGERPRINT h \<noteq> [] then Inr (env_CNW_FINGERPRINT h)
      else
        (case os_Hostname h of
           Inl e \<Rightarrow> Inl (Wrapf (''get hostname: '' @ e) (Plain e))
         | Inr hostname \<Rightarrow>
             (let parts0 = [hostname];
                  parts1 = (case getMACAddresses h of
                              Inr macs \<Rightarrow> if length macs > 0 then parts0 @ macs else parts0
                            | Inl e \<Rightarrow> parts0);
                  parts2 = parts1 @ [GOOS h, GOARCH h];
                  parts3 = (case machine_id h of
                              Some machineID \<Rightarrow> parts2 @ [TrimSpace h machineID]
                            | None \<Rightarrow> parts2)
              in Inr (sha256_hex h (Join parts3 ''|'')))))"

section \<open>Online client (the part the manager uses)\<close>

record ValidateRequest =
  req_LicenseKey :: string
  req_Fingerprint :: string
  req_Version :: string

record ValidateResponse =
  Valid :: bool
  Reason :: string
  Plan :: string
  ExpiresAt :: "time option"
  Features :: features
  ActivationRemaining :: int

text \<open>
  Of the client, the configured fingerprint and the outcome of the round trip
  \<open>c.doJSON(ctx, "/v1/validate", req, &resp)\<close> for each request: the decoded response,
  or the error \<open>doJSON\<close> returns. The round trip itself (marshalling, the HTTP exchange,
  decoding) is library code and the server's behaviour.
\<close>

record OnlineClient =
  fingerprint :: string
  doJSON_validate :: "ValidateRequest \<Rightarrow> error + ValidateResponse"


definition OnlineClient_Validate :: "OnlineClient \<Rightarrow> ValidateRequest \<Rightarrow> error + ValidateResponse" where
  "OnlineClient_Validate c req =
     (let req' = (if req_Fingerprint req = [] \<and> fingerprint c \<noteq> []
                  then req\<lparr>req_Fingerprint := fingerprint c\<rparr> else req)
      in doJSON_validate c req')"

section \<open>Manager (license.go, first half)\<close>

text \<open>
  \<open>LicenseInfo\<close> with the fields either version of the manager assigns: the version
  with the node registry sets \<open>NodeCount\<close> and leaves \<open>Plan\<close> at its zero value.
\<close>

record LicenseInfo =
  info_Valid :: bool
  info_LicenseKey :: string
  info_Plan :: string
  info_Features :: features
  info_ExpiresAt :: "time option"
  info_Fingerprint :: string
  info_NodeCount :: int

record 's Manager =
  client :: "OnlineClient option"
  registry :: "'s NodeRegistry option"

text \<open>
  \<open>Manager.ValidateAndEnforce\<close> of license.go. The state \<open>s\<close> is the state of the
  registry's store; the result is the pair the method returns and the state after the
  call. \<open>hostname, _ := os.Hostname()\<close> leaves the empty string on failure. The result
  of \<open>Register\<close> is dropped, and so is the error of \<open>Deregister\<close>. The client options
  of this version (\<open>WithHTTPClient\<close>, \<open>WithTimeout\<close>, \<open>WithUserAgent\<close>) set no
  client-level fingerprint, so the client of this manager has none: its \<open>fingerprint\<close>
  is empty.
\<close>

definition ValidateAndEnforce ::
  "(real \<Rightarrow> int) \<Rightarrow> host \<Rightarrow> 's Manager \<Rightarrow> string \<Rightarrow> 's
     \<Rightarrow> (LicenseInfo option \<times> error option) \<times> 's"
where
  "ValidateAndEnforce impl h m licenseKey s =
     (case client m of
        None \<Rightarrow> ((None, Some (Plain ''online client is required for ValidateAndEnforce'')), s)
      | Some c \<Rightarrow>
     (case GenerateFingerprint h of
        Inl e \<Rightarrow> ((None, Some (Wrapf (''generate fingerprint: '' @ error_text e) e)), s)
      | Inr fp \<Rightarrow>
     (case OnlineClient_Validate c
             \<lparr> req_LicenseKey = licenseKey, req_Fingerprint = fp, req_Version = [] \<rparr> of
        Inl e \<Rightarrow> ((None, Some (Wrapf (''validate license: '' @ error_text e) e)), s)
      | Inr resp \<Rightarrow>
          if \<not> Valid resp then
            ((Some \<lparr> info_Valid = False, info_LicenseKey = licenseKey, info_Plan = [],
                     info_Features = Map.empty, info_ExpiresAt = None,
                     info_Fingerprint = fp, info_NodeCount = 0 \<rparr>, None), s)
          else
            let limits = ExtractHardwareLimits impl (Features resp) in
            (case CheckCPU (NumCPU h) limits of
               Some e \<Rightarrow> ((None, Some e), s)
             | None \<Rightarrow>
                 let info = \<lparr> info_Valid = True, info_LicenseKey = licenseKey, info_Plan = [],
                              info_Features = Features resp, info_ExpiresAt = ExpiresAt resp,
                              info_Fingerprint = fp, info_NodeCount = 0 \<rparr>
                 in
                 (case registry m of
                    None \<Rightarrow> ((Some info, None), s)
                  | Some reg \<Rightarrow>
                      let hostname = (case os_Hostname h of Inr n \<Rightarrow> n | Inl e \<Rightarrow> []);
                          node = \<lparr> Fingerprint = fp, Hostname = hostname, IP = [],
                                   OS = GOOS h, LicenseKey = licenseKey,
                                   RegisteredAt = 0, LastSeenAt = 0 \<rparr>
                      in
                      (case Register reg node s of
                         (Inl e, s1) \<Rightarrow>
                           ((None, Some (Wrapf (''register node: '' @ error_text e) e)), s1)
                       | (Inr registered, s1) \<Rightarrow>
                           (case Count reg licenseKey s1 of
                              (Inl e, s2) \<Rightarrow>
                                ((None, Some (Wrapf (''count nodes: '' @ error_text e) e)), s2)
                            | (Inr count, s2) \<Rightarrow>
                                (case CheckNodeCount limits count of
                                   Some e \<Rightarrow>
                                     (let (ignored, s3) = Deregister reg fp s2
                                      in ((None, Some e), s3))
                                 | None \<Rightarrow>
                                     ((Some (info\<lparr>info_NodeCount := count\<rparr>), None), s2)))))))))"

section \<open>Manager, the version with \<open>resolveFingerprint\<close>\<close>



text \<open>
  A registry that records the calls it receives, in order, next to the state of the
  registry it forwards them to.
\<close>

datatype call = CallRegister NodeInfo | CallCount string | CallDeregister string | CallList string

definition recording :: "'s NodeRegistry \<Rightarrow> ('s \<times> call list) NodeRegistry" where
  "recording reg =
     \<lparr> Register = (\<lambda>node (s, calls).
         let (r, s') = Register reg node s in (r, (s', calls @ [CallRegister node]))),
       Deregister = (\<lambda>fp (s, calls).
         let (r, s') = Deregister reg fp s in (r, (s', calls @ [CallDeregister fp]))),
       Count = (\<lambda>key (s, calls).
         let (r, s') = Count reg key s in (r, (s', calls @ [CallCount key]))),
       List_nodes = (\<lambda>key (s, calls).
         let (r, s') = List_nodes reg key s in (r, (s', calls @ [CallList key]))) \<rparr>"

section \<open>Concrete inputs\<close>

text \<open>Inputs on which the properties below are evaluated.\<close>

definition activation_limit_409 :: ServerError where
  "activation_limit_409 =
     \<lparr>StatusCode = 409, Code = ''ACTIVATION_LIMIT'', Message = ''activation limit reached''\<rparr>"

text \<open>
  A stand-in for the libraries of \<open>Verify\<close>: base64 decoding is the identity, two
  envelopes are known to the JSON decoder, both carrying the embedded key \<open>key_E\<close>,
  and a signature is valid for the one key it names.
\<close>

definition key_T :: string where
  "key_T = ''TTTTTTTTTTTTTTTTTTTTTTTTTTTTTTTT''"

definition key_E :: string where
  "key_E = ''EEEEEEEEEEEEEEEEEEEEEEEEEEEEEEEE''"

definition envelope_signed_T :: OfflineLicenseFile where
  "envelope_signed_T = \<lparr> License = ''{payload}'', Signature = ''signed by T'', PublicKey = key_E \<rparr>"

definition envelope_signed_E :: OfflineLicenseFile where
  "envelope_signed_E = \<lparr> License = ''{payload}'', Signature = ''signed by E'', PublicKey = key_E \<rparr>"

definition payload_data :: OfflineLicenseData where
  "payload_data =
     \<lparr> data_LicenseKey = ''CNW-OVERRIDE'', data_CompanyID = ''c1'', data_AppID = ''a1'',
       data_Plan = ''enterprise'', data_Features = [''max_nodes'' \<mapsto> AFloat64 3],
       data_ExpiresAt = 1000, data_IssuedAt = 10 \<rparr>"

definition stub_codec :: codec where
  "stub_codec =
     \<lparr> json_Unmarshal_file = (\<lambda>raw.
         if raw = ''envelope signed by T'' then Inr envelope_signed_T
         else if raw = ''envelope signed by T, no key'' then Inr (envelope_signed_T\<lparr>PublicKey := []\<rparr>)
         else if raw = ''envelope signed by E'' then Inr envelope_signed_E
         else Inl ''unexpected end of JSON input''),
       json_Unmarshal_data = (\<lambda>bytes.
         if bytes = ''{payload}'' then Inr payload_data
         else Inl ''unexpected end of JSON input''),
       base64_DecodeString = (\<lambda>s. Inr s),
       ed25519_Verify = (\<lambda>pub msg sg.
         msg = ''{payload}'' \<and> (pub = key_T \<and> sg = ''signed by T'' \<or> pub = key_E \<and> sg = ''signed by E'')) \<rparr>"

text \<open>
  Two nodes of one license and an empty store. In \<open>three_registrations\<close> the host of
  \<open>node_a\<close> registers when its clock reads 200, the host of \<open>node_b\<close> registers next
  with a clock that is behind and reads 100, and \<open>node_b\<close> registers again when its
  clock reads 300.
\<close>

definition node_a :: NodeInfo where
  "node_a = \<lparr> Fingerprint = ''fp-a'', Hostname = ''worker-01'', IP = ''10.0.1.51'',
              OS = ''linux'', LicenseKey = ''CNW-1'', RegisteredAt = 0, LastSeenAt = 0 \<rparr>"

definition node_b :: NodeInfo where
  "node_b = \<lparr> Fingerprint = ''fp-b'', Hostname = ''worker-02'', IP = ''10.0.1.52'',
              OS = ''linux'', LicenseKey = ''CNW-1'', RegisteredAt = 0, LastSeenAt = 0 \<rparr>"

definition empty_db :: db where
  "empty_db = \<lparr> rows = [], clock = 200, faults = [] \<rparr>"

definition three_registrations :: "db NodeRegistry \<Rightarrow> db" where
  "three_registrations reg =
     snd (Register reg node_b
            ((snd (Register reg node_b
                     ((snd (Register reg node_a empty_db))\<lparr>clock := 100\<rparr>)))\<lparr>clock := 300\<rparr>))"

definition node_a_moved :: NodeInfo where
  "node_a_moved = node_a\<lparr> Hostname := ''worker-09'', IP := ''10.0.9.9'', LicenseKey := ''CNW-2'' \<rparr>"

definition registered_twice :: "db NodeRegistry \<Rightarrow> (error + NodeInfo) \<times> db" where
  "registered_twice reg =
     Register reg node_a_moved ((snd (Register reg node_a empty_db))\<lparr>clock := 300\<rparr>)"

text \<open>
  A host without the environment override, a digest function that answers with one
  fixed text of 64 hexadecimal digits, and three license servers: one that accepts the
  license with \<open>max_nodes = 2\<close>, one that rejects it, and one that accepts it and
  reports back, in the features, the fingerprint of the request it received. Two
  clients talk to the last server: \<open>client_echo\<close> without a client-level fingerprint,
  and \<open>client_saved_fp\<close> with the fingerprint \<open>saved-fp\<close> configured.
\<close>

definition stub_digest :: string where
  "stub_digest = ''aaaaaaaaaaaaaaaaaaaaaaaaaaaaaaaaaaaaaaaaaaaaaaaaaaaaaaaaaaaaaaaa''"

definition stub_host :: host where
  "stub_host =
     \<lparr> env_CNW_FINGERPRINT = [], os_Hostname = Inr ''worker-03'',
       net_Interfaces = Inr [(True, []), (False, ''02:42:ac:11:00:02'')],
       GOOS = ''linux'', GOARCH = ''amd64'', machine_id = Some ''4c4c4544'',
       NumCPU = 8, sha256_hex = (\<lambda>s. stub_digest), TrimSpace = (\<lambda>s. s) \<rparr>"

definition client_max_nodes_2 :: OnlineClient where
  "client_max_nodes_2 =
     \<lparr> fingerprint = [],
       doJSON_validate = (\<lambda>req. Inr \<lparr> Valid = True, Reason = [], Plan = ''enterprise'',
          ExpiresAt = None, Features = [''max_nodes'' \<mapsto> AFloat64 2],
          ActivationRemaining = 0 \<rparr>) \<rparr>"

definition client_rejected :: OnlineClient where
  "client_rejected =
     \<lparr> fingerprint = [],
       doJSON_validate = (\<lambda>req. Inr \<lparr> Valid = False, Reason = ''license not found'', Plan = [],
          ExpiresAt = None, Features = [''max_cpu_per_node'' \<mapsto> AFloat64 1],
          ActivationRemaining = 0 \<rparr>) \<rparr>"



text \<open>
  A store that already holds two other nodes of the license. In \<open>two_nodes_db_failing\<close>
  the first two driver calls succeed and the third fails.
\<close>

definition stored_a :: NodeInfo where
  "stored_a = node_a\<lparr> RegisteredAt := 200, LastSeenAt := 200 \<rparr>"

definition stored_b :: NodeInfo where
  "stored_b = node_b\<lparr> RegisteredAt := 210, LastSeenAt := 210 \<rparr>"

definition stored_c :: NodeInfo where
  "stored_c = \<lparr> Fingerprint = stub_digest, Hostname = ''worker-03'', IP = [], OS = ''linux'',
                LicenseKey = ''CNW-1'', RegisteredAt = 300, LastSeenAt = 300 \<rparr>"

definition two_nodes_db :: db where
  "two_nodes_db = \<lparr> rows = [stored_a, stored_b], clock = 300, faults = [] \<rparr>"

definition two_nodes_db_failing :: db where
  "two_nodes_db_failing =
     \<lparr> rows = [stored_a, stored_b], clock = 300,
       faults = [None, None, Some ''context deadline exceeded''] \<rparr>"

text \<open>
  The conversion of an out-of-range \<open>float64\<close> on amd64, which yields the smallest
  64-bit integer.
\<close>

definition float64_overflow_amd64 :: "real \<Rightarrow> int" where
  "float64_overflow_amd64 x = - (2 ^ 63)"

section \<open>Properties\<close>

subsection \<open>Errors and hardware limits\<close>

text \<open>
  Claim C3. For every server error, \<open>mapServerError\<close> returns the error of the table:
  code \<open>NOT_FOUND\<close> gives LicenseNotFound whatever the message; \<open>FORBIDDEN\<close> gives
  LicenseExpired when the message is "license expired" and LicenseInactive for any other
  message; \<open>ACTIVATION_LIMIT\<close> gives ActivationLimit; every other code gives the
  \<open>ServerError\<close> itself. In every case \<open>errors.As\<close> extracts the original
  \<open>ServerError\<close> (status, code and message), and \<open>errors.Is\<close> holds of the result for
  a sentinel exactly when the result is the mapped error of that sentinel.
\<close>

theorem mapServerError_table:
  "mapServerError se =
     (if Code se = ''NOT_FOUND'' then Mapped ErrLicenseNotFound se
      else if Code se = ''FORBIDDEN'' \<and> Message se = ''license expired''
        then Mapped ErrLicenseExpired se
      else if Code se = ''FORBIDDEN'' then Mapped ErrLicenseInactive se
      else if Code se = ''ACTIVATION_LIMIT'' then Mapped ErrActivationLimit se
      else Server se)
   \<and> errors_As_ServerError (mapServerError se) = Some se
   \<and> (\<forall>s. errors_Is (mapServerError se) s \<longleftrightarrow> mapServerError se = Mapped s se)"
  by (auto simp: mapServerError_def)

theorem mapServerError_table_witness:
  "mapServerError activation_limit_409 = Mapped ErrActivationLimit activation_limit_409
   \<and> errors_Is (mapServerError activation_limit_409) ErrActivationLimit
   \<and> errors_As_ServerError (mapServerError activation_limit_409) = Some activation_limit_409"
proof -
  have c: "Code activation_limit_409 = ''ACTIVATION_LIMIT''"
    by (simp add: activation_limit_409_def)
  note t = mapServerError_table [of activation_limit_409]
  from conjunct1 [OF t] c have m: "mapServerError activation_limit_409 = Mapped ErrActivationLimit activation_limit_409"
    by simp
  from t have a: "errors_As_ServerError (mapServerError activation_limit_409) = Some activation_limit_409"
    by (rule conjunct1 [OF conjunct2])
  from conjunct2 [OF conjunct2 [OF t]] m
  have i: "errors_Is (mapServerError activation_limit_409) ErrActivationLimit"
    by blast
  from m i a show ?thesis by (intro conjI)
qed

text \<open>
  Claim C8. With a limit \<open>N > 0\<close>, \<open>CheckCPU\<close> and \<open>CheckNodeCount\<close> return nil when
  the count equals \<open>N\<close> (and for every count up to \<open>N\<close>), and fail when the count is
  strictly greater than \<open>N\<close>, with an error that wraps \<open>ErrCPULimitExceeded\<close>
  (\<open>ErrNodeLimitExceeded\<close>) and whose text carries the count and the limit; with limit
  0 they return nil for every count.
\<close>

theorem limit_checks_boundary:
  "(0 < MaxCPUPerNode limits \<longrightarrow>
      CheckCPU (MaxCPUPerNode limits) limits = None
      \<and> (cpuCount \<le> MaxCPUPerNode limits \<longrightarrow> CheckCPU cpuCount limits = None)
      \<and> (MaxCPUPerNode limits < cpuCount \<longrightarrow>
           CheckCPU cpuCount limits =
             Some (Wrapf (''CPU limit exceeded: machine has '' @ itoa cpuCount
                            @ '' CPUs, limit is '' @ itoa (MaxCPUPerNode limits))
                     (Sentinel ErrCPULimitExceeded))
           \<and> errors_Is (the (CheckCPU cpuCount limits)) ErrCPULimitExceeded))
   \<and> (MaxCPUPerNode limits = 0 \<longrightarrow> CheckCPU cpuCount limits = None)
   \<and> (0 < MaxNodes limits \<longrightarrow>
      CheckNodeCount limits (MaxNodes limits) = None
      \<and> (currentNodes \<le> MaxNodes limits \<longrightarrow> CheckNodeCount limits currentNodes = None)
      \<and> (MaxNodes limits < currentNodes \<longrightarrow>
           CheckNodeCount limits currentNodes =
             Some (Wrapf (''node limit exceeded: '' @ itoa currentNodes
                            @ '' nodes active, limit is '' @ itoa (MaxNodes limits))
                     (Sentinel ErrNodeLimitExceeded))
           \<and> errors_Is (the (CheckNodeCount limits currentNodes)) ErrNodeLimitExceeded))
   \<and> (MaxNodes limits = 0 \<longrightarrow> CheckNodeCount limits currentNodes = None)"
  by (simp add: CheckCPU_def CheckNodeCount_def)

theorem limit_checks_boundary_witness:
  "CheckCPU 4 \<lparr>MaxCPUPerNode = 4, MaxNodes = 2\<rparr> = None
   \<and> CheckCPU 5 \<lparr>MaxCPUPerNode = 4, MaxNodes = 2\<rparr>
       = Some (Wrapf ''CPU limit exceeded: machine has 5 CPUs, limit is 4'' (Sentinel ErrCPULimitExceeded))
   \<and> CheckNodeCount \<lparr>MaxCPUPerNode = 4, MaxNodes = 2\<rparr> 2 = None
   \<and> CheckNodeCount \<lparr>MaxCPUPerNode = 4, MaxNodes = 2\<rparr> 3
       = Some (Wrapf ''node limit exceeded: 3 nodes active, limit is 2'' (Sentinel ErrNodeLimitExceeded))"
  using limit_checks_boundary [of "\<lparr>MaxCPUPerNode = 4, MaxNodes = 2\<rparr>" 5 3]
  by (simp add: itoa_def digits.simps)

lemma truncate_negative: "x \<le> - 1 \<Longrightarrow> truncate_toward_zero x \<le> - 1"
proof -
  assume "x \<le> - 1"
  then have "1 \<le> \<lfloor>- x\<rfloor>" by (simp add: le_floor_iff)
  moreover have "\<not> 0 \<le> x" using \<open>x \<le> - 1\<close> by simp
  ultimately show ?thesis by (simp add: truncate_toward_zero_def)
qed

text \<open>
  Claim C10. \<open>CheckCPU\<close> and \<open>CheckNodeCount\<close> return nil for every limit that is not
  positive, negative limits included; and \<open>ExtractHardwareLimits\<close> does produce negative
  limits: a JSON number \<open>x \<le> -1\<close> whose truncation fits 64 bits is truncated toward
  zero to a negative limit, under which the check succeeds for every count.
\<close>

theorem nonpositive_limit_unlimited:
  "(MaxCPUPerNode limits \<le> 0 \<longrightarrow> CheckCPU cpuCount limits = None)
   \<and> (MaxNodes limits \<le> 0 \<longrightarrow> CheckNodeCount limits currentNodes = None)
   \<and> (x \<le> - 1 \<and> - (2 ^ 63) \<le> truncate_toward_zero x \<longrightarrow>
        toInt impl (AFloat64 x) = truncate_toward_zero x
        \<and> MaxNodes (ExtractHardwareLimits impl (fs(''max_nodes'' \<mapsto> AFloat64 x))) < 0
        \<and> CheckNodeCount (ExtractHardwareLimits impl (fs(''max_nodes'' \<mapsto> AFloat64 x)))
             currentNodes = None
        \<and> MaxCPUPerNode (ExtractHardwareLimits impl (fs(''max_cpu_per_node'' \<mapsto> AFloat64 x))) < 0
        \<and> CheckCPU cpuCount
             (ExtractHardwareLimits impl (fs(''max_cpu_per_node'' \<mapsto> AFloat64 x))) = None)"
proof -
  have a: "MaxCPUPerNode limits \<le> 0 \<longrightarrow> CheckCPU cpuCount limits = None"
    by (simp add: CheckCPU_def)
  have b: "MaxNodes limits \<le> 0 \<longrightarrow> CheckNodeCount limits currentNodes = None"
    by (simp add: CheckNodeCount_def)
  have c: "toInt impl (AFloat64 x) = truncate_toward_zero x \<and> truncate_toward_zero x < 0"
    if "x \<le> - 1" "- (2 ^ 63) \<le> truncate_toward_zero x"
  proof -
    have t: "truncate_toward_zero x \<le> - 1" using that(1) by (rule truncate_negative)
    then have "truncate_toward_zero x < 2 ^ 63" by simp
    with that(2) t show ?thesis by (simp add: float64_to_int_def)
  qed
  have d: "x \<le> - 1 \<and> - (2 ^ 63) \<le> truncate_toward_zero x \<longrightarrow>
        toInt impl (AFloat64 x) = truncate_toward_zero x
        \<and> MaxNodes (ExtractHardwareLimits impl (fs(''max_nodes'' \<mapsto> AFloat64 x))) < 0
        \<and> CheckNodeCount (ExtractHardwareLimits impl (fs(''max_nodes'' \<mapsto> AFloat64 x)))
             currentNodes = None
        \<and> MaxCPUPerNode (ExtractHardwareLimits impl (fs(''max_cpu_per_node'' \<mapsto> AFloat64 x))) < 0
        \<and> CheckCPU cpuCount
             (ExtractHardwareLimits impl (fs(''max_cpu_per_node'' \<mapsto> AFloat64 x))) = None"
  proof (intro impI)
    assume h: "x \<le> - 1 \<and> - (2 ^ 63) \<le> truncate_toward_zero x"
    from c h have e: "toInt impl (AFloat64 x) = truncate_toward_zero x"
      and n: "truncate_toward_zero x < 0" by simp_all
    from e n show "toInt impl (AFloat64 x) = truncate_toward_zero x
        \<and> MaxNodes (ExtractHardwareLimits impl (fs(''max_nodes'' \<mapsto> AFloat64 x))) < 0
        \<and> CheckNodeCount (ExtractHardwareLimits impl (fs(''max_nodes'' \<mapsto> AFloat64 x)))
             currentNodes = None
        \<and> MaxCPUPerNode (ExtractHardwareLimits impl (fs(''max_cpu_per_node'' \<mapsto> AFloat64 x))) < 0
        \<and> CheckCPU cpuCount
             (ExtractHardwareLimits impl (fs(''max_cpu_per_node'' \<mapsto> AFloat64 x))) = None"
      by (simp add: ExtractHardwareLimits_def CheckCPU_def CheckNodeCount_def)
  qed
  show ?thesis by (rule conjI [OF a conjI [OF b d]])
qed

theorem nonpositive_limit_unlimited_witness:
  "CheckCPU 64 \<lparr>MaxCPUPerNode = - 3, MaxNodes = - 1\<rparr> = None
   \<and> CheckNodeCount \<lparr>MaxCPUPerNode = - 3, MaxNodes = - 1\<rparr> 1000 = None
   \<and> ExtractHardwareLimits float64_overflow_amd64 [''max_nodes'' \<mapsto> AFloat64 (- 7 / 2)]
       = \<lparr>MaxCPUPerNode = 0, MaxNodes = - 3\<rparr>
   \<and> CheckNodeCount (ExtractHardwareLimits float64_overflow_amd64 [''max_nodes'' \<mapsto> AFloat64 (- 7 / 2)]) 1000 = None"
  using nonpositive_limit_unlimited
    [of "\<lparr>MaxCPUPerNode = - 3, MaxNodes = - 1\<rparr>" 64 1000 "- 7 / 2" float64_overflow_amd64 Map.empty]
  by (simp add: ExtractHardwareLimits_def float64_to_int_def truncate_toward_zero_def)

subsection \<open>Offline verification\<close>

text \<open>
  Claim C1. With a non-empty trusted key \<open>T\<close> configured, \<open>Verify\<close> uses \<open>T\<close> and
  ignores the \<open>public_key\<close> of the envelope: two envelopes that differ only in the
  embedded key give the same result. When \<open>T\<close> decodes to a key of 32 bytes and the
  signature decodes, a payload whose signature is valid under \<open>T\<close> (and which parses
  and is not expired) is returned without error whatever key \<open>E\<close> is embedded, and a
  payload whose signature is not valid under \<open>T\<close> fails with \<open>ErrSignatureInvalid\<close>,
  also when the signature is valid under the embedded key.
\<close>

theorem trusted_key_precedence:
  assumes T: "trustedPublicKey v \<noteq> []"
    and raw: "json_Unmarshal_file lib raw = Inr fl"
    and raw': "json_Unmarshal_file lib raw' = Inr (fl\<lparr>PublicKey := E\<rparr>)"
  shows "Verify lib now v raw' = Verify lib now v raw
    \<and> (License fl \<noteq> [] \<and> Signature fl \<noteq> []
        \<and> base64_DecodeString lib (trustedPublicKey v) = Inr key
        \<and> length key = ed25519_PublicKeySize
        \<and> base64_DecodeString lib (Signature fl) = Inr sg \<longrightarrow>
          (ed25519_Verify lib key (License fl) sg
             \<and> json_Unmarshal_data lib (License fl) = Inr data
             \<and> (IsZero (data_ExpiresAt data) \<or> \<not> Before (data_ExpiresAt data) now)
           \<longrightarrow> Verify lib now v raw' = (Some data, None))
        \<and> (\<not> ed25519_Verify lib key (License fl) sg
           \<longrightarrow> Verify lib now v raw' = (None, Some (Sentinel ErrSignatureInvalid))))"
proof -
  have indep: "Verify lib now v raw' = Verify lib now v raw"
    using T raw raw' by (simp add: Verify_def cong: sum.case_cong if_cong)
  have rest: "License fl \<noteq> [] \<and> Signature fl \<noteq> []
        \<and> base64_DecodeString lib (trustedPublicKey v) = Inr key
        \<and> length key = ed25519_PublicKeySize
        \<and> base64_DecodeString lib (Signature fl) = Inr sg \<longrightarrow>
          (ed25519_Verify lib key (License fl) sg
             \<and> json_Unmarshal_data lib (License fl) = Inr data
             \<and> (IsZero (data_ExpiresAt data) \<or> \<not> Before (data_ExpiresAt data) now)
           \<longrightarrow> Verify lib now v raw' = (Some data, None))
        \<and> (\<not> ed25519_Verify lib key (License fl) sg
           \<longrightarrow> Verify lib now v raw' = (None, Some (Sentinel ErrSignatureInvalid)))"
    using T raw' by (auto simp: Verify_def)
  show ?thesis by (rule conjI [OF indep rest])
qed

text \<open>
  Claim C2. When the signature verifies and the payload parses, and the payload's
  expiration instant is set (not the zero time) and strictly before the current time,
  \<open>Verify\<close> returns both the parsed \<open>OfflineLicenseData\<close> and the error
  \<open>ErrLicenseExpired\<close>, not a nil result with the error.
\<close>

theorem expired_returns_data_and_error:
  assumes "json_Unmarshal_file lib raw = Inr fl"
    and "License fl \<noteq> []" and "Signature fl \<noteq> []"
    and "pubKeyText = (if trustedPublicKey v \<noteq> [] then trustedPublicKey v else PublicKey fl)"
    and "pubKeyText \<noteq> []"
    and "base64_DecodeString lib pubKeyText = Inr key"
    and "length key = ed25519_PublicKeySize"
    and "base64_DecodeString lib (Signature fl) = Inr sg"
    and "ed25519_Verify lib key (License fl) sg"
    and "json_Unmarshal_data lib (License fl) = Inr data"
    and "data_ExpiresAt data \<noteq> 0"
    and "data_ExpiresAt data < now"
  shows "Verify lib now v raw = (Some data, Some (Sentinel ErrLicenseExpired))"
  using assms by (simp add: Verify_def IsZero_def Before_def)


theorem trusted_key_precedence_witness:
  "Verify stub_codec 500 \<lparr>trustedPublicKey = key_T\<rparr> ''envelope signed by T''
     = Verify stub_codec 500 \<lparr>trustedPublicKey = key_T\<rparr> ''envelope signed by T, no key''
   \<and> Verify stub_codec 500 \<lparr>trustedPublicKey = key_T\<rparr> ''envelope signed by T''
     = (Some payload_data, None)
   \<and> Verify stub_codec 500 \<lparr>trustedPublicKey = key_T\<rparr> ''envelope signed by E''
     = (None, Some (Sentinel ErrSignatureInvalid))
   \<and> Verify stub_codec 500 \<lparr>trustedPublicKey = []\<rparr> ''envelope signed by E''
     = (Some payload_data, None)"
proof -
  let ?v = "\<lparr>trustedPublicKey = key_T\<rparr>"
  have h1: "trustedPublicKey ?v \<noteq> []"
    by (simp add: key_T_def)
  have h2: "json_Unmarshal_file stub_codec ''envelope signed by T, no key''
              = Inr (envelope_signed_T\<lparr>PublicKey := []\<rparr>)"
    by (simp add: stub_codec_def)
  have h3: "json_Unmarshal_file stub_codec ''envelope signed by T''
              = Inr (envelope_signed_T\<lparr>PublicKey := []\<rparr>\<lparr>PublicKey := key_E\<rparr>)"
    by (simp add: stub_codec_def envelope_signed_T_def)
  have h4: "json_Unmarshal_file stub_codec ''envelope signed by E'' = Inr envelope_signed_E"
    by (simp add: stub_codec_def)
  have h5: "json_Unmarshal_file stub_codec ''envelope signed by E''
              = Inr (envelope_signed_E\<lparr>PublicKey := key_E\<rparr>)"
    by (simp add: stub_codec_def envelope_signed_E_def)
  have a: "Verify stub_codec 500 ?v ''envelope signed by T''
             = Verify stub_codec 500 ?v ''envelope signed by T, no key''"
    by (rule conjunct1 [OF trusted_key_precedence [OF h1 h2 h3]])
  have b: "Verify stub_codec 500 ?v ''envelope signed by T'' = (Some payload_data, None)"
    using conjunct2 [OF trusted_key_precedence
            [OF h1 h2 h3, where key = key_T and sg = "''signed by T''" and data = payload_data and now = 500]]
    by (simp add: stub_codec_def envelope_signed_T_def key_T_def payload_data_def
          ed25519_PublicKeySize_def IsZero_def Before_def)
  have c: "Verify stub_codec 500 ?v ''envelope signed by E''
             = (None, Some (Sentinel ErrSignatureInvalid))"
    using conjunct2 [OF trusted_key_precedence
            [OF h1 h4 h5, where key = key_T and sg = "''signed by E''" and data = payload_data and now = 500]]
    by (simp add: stub_codec_def envelope_signed_E_def key_T_def key_E_def
          ed25519_PublicKeySize_def)
  have d: "Verify stub_codec 500 \<lparr>trustedPublicKey = []\<rparr> ''envelope signed by E''
             = (Some payload_data, None)"
    by (simp add: Verify_def stub_codec_def envelope_signed_E_def key_E_def payload_data_def
          ed25519_PublicKeySize_def IsZero_def Before_def)
  from a b c d show ?thesis by (intro conjI)
qed

theorem expired_returns_data_and_error_witness:
  "Verify stub_codec 2000 \<lparr>trustedPublicKey = key_T\<rparr> ''envelope signed by T''
     = (Some payload_data, Some (Sentinel ErrLicenseExpired))
   \<and> data_Plan payload_data = ''enterprise''
   \<and> data_LicenseKey payload_data = ''CNW-OVERRIDE''"
proof -
  have "Verify stub_codec 2000 \<lparr>trustedPublicKey = key_T\<rparr> ''envelope signed by T''
     = (Some payload_data, Some (Sentinel ErrLicenseExpired))"
  proof (rule expired_returns_data_and_error [where fl = envelope_signed_T
           and pubKeyText = key_T and key = key_T and sg = "''signed by T''"])
    show "json_Unmarshal_file stub_codec ''envelope signed by T'' = Inr envelope_signed_T"
      by (simp add: stub_codec_def)
    show "License envelope_signed_T \<noteq> []" by (simp add: envelope_signed_T_def)
    show "Signature envelope_signed_T \<noteq> []" by (simp add: envelope_signed_T_def)
    show "key_T = (if trustedPublicKey \<lparr>trustedPublicKey = key_T\<rparr> \<noteq> []
                   then trustedPublicKey \<lparr>trustedPublicKey = key_T\<rparr>
                   else PublicKey envelope_signed_T)"
      by (simp add: key_T_def)
    show "key_T \<noteq> []" by (simp add: key_T_def)
    show "base64_DecodeString stub_codec key_T = Inr key_T" by (simp add: stub_codec_def)
    show "length key_T = ed25519_PublicKeySize"
      by (simp add: key_T_def ed25519_PublicKeySize_def)
    show "base64_DecodeString stub_codec (Signature envelope_signed_T) = Inr ''signed by T''"
      by (simp add: stub_codec_def envelope_signed_T_def)
    show "ed25519_Verify stub_codec key_T (License envelope_signed_T) ''signed by T''"
      by (simp add: stub_codec_def envelope_signed_T_def)
    show "json_Unmarshal_data stub_codec (License envelope_signed_T) = Inr payload_data"
      by (simp add: stub_codec_def envelope_signed_T_def)
    show "data_ExpiresAt payload_data \<noteq> 0" by (simp add: payload_data_def)
    show "data_ExpiresAt payload_data < 2000" by (simp add: payload_data_def)
  qed
  then show ?thesis by (simp add: payload_data_def)
qed

subsection \<open>Node registry\<close>

lemma driver_call_rows [simp]: "rows (snd (driver_call d)) = rows d"
  by (simp add: driver_call_def split: list.split)

lemma driver_call_clock [simp]: "clock (snd (driver_call d)) = clock d"
  by (simp add: driver_call_def split: list.split)

lemma driver_call_keeps:
  assumes "driver_call d = (e, d1)"
  shows "rows d1 = rows d" and "clock d1 = clock d"
proof -
  from assms have "d1 = snd (driver_call d)" by simp
  then show "rows d1 = rows d" and "clock d1 = clock d" by simp_all
qed

lemma pg_upsert_absent:
  "Fingerprint node \<notin> Fingerprint ` set rs \<Longrightarrow>
   pg_upsert now node rs =
     (\<lparr> Fingerprint = Fingerprint node, Hostname = Hostname node, IP = IP node,
         OS = OS node, LicenseKey = LicenseKey node, RegisteredAt = now, LastSeenAt = now \<rparr>,
      rs @ [\<lparr> Fingerprint = Fingerprint node, Hostname = Hostname node, IP = IP node,
         OS = OS node, LicenseKey = LicenseKey node, RegisteredAt = now, LastSeenAt = now \<rparr>])"
  by (induction rs) (auto simp: Let_def)

lemma pg_upsert_present:
  "Fingerprint node \<notin> Fingerprint ` set rs \<Longrightarrow> Fingerprint r = Fingerprint node \<Longrightarrow>
   pg_upsert now node (rs @ r # rs') =
     (r\<lparr> Hostname := Hostname node, IP := IP node, OS := OS node,
          LicenseKey := LicenseKey node, LastSeenAt := now \<rparr>,
      rs @ r\<lparr> Hostname := Hostname node, IP := IP node, OS := OS node,
          LicenseKey := LicenseKey node, LastSeenAt := now \<rparr> # rs')"
  by (induction rs) (auto simp: Let_def)

lemma mongo_FindOneAndUpdate_absent:
  "Fingerprint node \<notin> Fingerprint ` set ds \<Longrightarrow>
   mongo_FindOneAndUpdate now node ds =
     (\<lparr> Fingerprint = Fingerprint node, Hostname = Hostname node, IP = IP node,
         OS = OS node, LicenseKey = LicenseKey node, RegisteredAt = now, LastSeenAt = now \<rparr>,
      ds @ [\<lparr> Fingerprint = Fingerprint node, Hostname = Hostname node, IP = IP node,
         OS = OS node, LicenseKey = LicenseKey node, RegisteredAt = now, LastSeenAt = now \<rparr>])"
  by (induction ds) (auto simp: Let_def)

lemma mongo_FindOneAndUpdate_present:
  "Fingerprint node \<notin> Fingerprint ` set ds \<Longrightarrow> Fingerprint doc = Fingerprint node \<Longrightarrow>
   mongo_FindOneAndUpdate now node (ds @ doc # ds') =
     (doc\<lparr> Hostname := Hostname node, IP := IP node, OS := OS node,
          LicenseKey := LicenseKey node, LastSeenAt := now \<rparr>,
      ds @ doc\<lparr> Hostname := Hostname node, IP := IP node, OS := OS node,
          LicenseKey := LicenseKey node, LastSeenAt := now \<rparr> # ds')"
  by (induction ds) (auto simp: Let_def)


lemma PostgresRegistry_Register_Inr:
  assumes "PostgresRegistry_Register node d = (Inr r, d')"
  shows "(r, rows d') =
           (node\<lparr> RegisteredAt := RegisteredAt (fst (pg_upsert (clock d) node (rows d))),
                  LastSeenAt := LastSeenAt (fst (pg_upsert (clock d) node (rows d))) \<rparr>,
            snd (pg_upsert (clock d) node (rows d)))"
  using assms
  by (auto simp: PostgresRegistry_Register_def Let_def driver_call_keeps
        split: prod.splits option.splits)

lemma MongoRegistry_Register_Inr:
  assumes "MongoRegistry_Register node d = (Inr r, d')"
  shows "(r, rows d') = mongo_FindOneAndUpdate (clock d) node (rows d)"
  using assms
  by (auto simp: MongoRegistry_Register_def Let_def driver_call_keeps
        split: prod.splits option.splits)

lemma filter_other_fingerprints:
  "fp \<notin> Fingerprint ` set rs \<Longrightarrow> filter (\<lambda>r. Fingerprint r = fp) rs = []"
  by (induction rs) auto

text \<open>
  Claim C6. In both backends \<open>Register\<close> is an upsert keyed by fingerprint. When a
  fingerprint not yet in the store is registered and then registered again at a later
  clock reading, with both calls succeeding, the store holds exactly one record with
  that fingerprint; its \<open>registered_at\<close> is the time of the first call, its
  \<open>last_seen_at\<close> the time of the second, and its hostname, ip, os and license key
  are those of the second call. The record each call returns is the record as stored,
  so the second call returns the original \<open>registered_at\<close>. The other records of the
  store are untouched.
\<close>

theorem Register_twice_one_record:
  assumes backend: "reg = PostgresRegistry \<or> reg = MongoRegistry"
    and fresh: "Fingerprint n1 \<notin> Fingerprint ` set (rows d0)"
    and same: "Fingerprint n2 = Fingerprint n1"
    and first: "Register reg n1 d0 = (Inr r1, d1)"
    and second: "Register reg n2 (d1\<lparr>clock := t2\<rparr>) = (Inr r2, d2)"
  shows "r1 = \<lparr> Fingerprint = Fingerprint n1, Hostname = Hostname n1, IP = IP n1,
                 OS = OS n1, LicenseKey = LicenseKey n1,
                 RegisteredAt = clock d0, LastSeenAt = clock d0 \<rparr>
       \<and> r2 = \<lparr> Fingerprint = Fingerprint n1, Hostname = Hostname n2, IP = IP n2,
                 OS = OS n2, LicenseKey = LicenseKey n2,
                 RegisteredAt = clock d0, LastSeenAt = t2 \<rparr>
       \<and> rows d1 = rows d0 @ [r1]
       \<and> filter (\<lambda>r. Fingerprint r = Fingerprint n1) (rows d2) = [r2]
       \<and> rows d2 = rows d0 @ [r2]"
proof -
  let ?new = "\<lparr> Fingerprint = Fingerprint n1, Hostname = Hostname n1, IP = IP n1,
                 OS = OS n1, LicenseKey = LicenseKey n1,
                 RegisteredAt = clock d0, LastSeenAt = clock d0 \<rparr>"
  let ?upd = "\<lparr> Fingerprint = Fingerprint n1, Hostname = Hostname n2, IP = IP n2,
                 OS = OS n2, LicenseKey = LicenseKey n2,
                 RegisteredAt = clock d0, LastSeenAt = t2 \<rparr>"
  have none: "filter (\<lambda>r. Fingerprint r = Fingerprint n1) (rows d0) = []"
    using fresh by (rule filter_other_fingerprints)
  from backend show ?thesis
  proof
    assume pg: "reg = PostgresRegistry"
    from first pg have "PostgresRegistry_Register n1 d0 = (Inr r1, d1)"
      by (simp add: PostgresRegistry_def)
    from PostgresRegistry_Register_Inr [OF this] fresh
    have 1: "r1 = ?new" and rows1: "rows d1 = rows d0 @ [?new]"
      by (simp_all add: pg_upsert_absent)
    from second pg have "PostgresRegistry_Register n2 (d1\<lparr>clock := t2\<rparr>) = (Inr r2, d2)"
      by (simp add: PostgresRegistry_def)
    from PostgresRegistry_Register_Inr [OF this] rows1 fresh same
    have 2: "r2 = ?upd" and rows2: "rows d2 = rows d0 @ [?upd]"
      by (simp_all add: pg_upsert_present [where rs' = "[]"])
    from 1 2 rows1 rows2 none show ?thesis by simp
  next
    assume mg: "reg = MongoRegistry"
    from first mg have "MongoRegistry_Register n1 d0 = (Inr r1, d1)"
      by (simp add: MongoRegistry_def)
    from MongoRegistry_Register_Inr [OF this] fresh
    have 1: "r1 = ?new" and rows1: "rows d1 = rows d0 @ [?new]"
      by (simp_all add: mongo_FindOneAndUpdate_absent)
    from second mg have "MongoRegistry_Register n2 (d1\<lparr>clock := t2\<rparr>) = (Inr r2, d2)"
      by (simp add: MongoRegistry_def)
    from MongoRegistry_Register_Inr [OF this] rows1 fresh same
    have 2: "r2 = ?upd" and rows2: "rows d2 = rows d0 @ [?upd]"
      by (simp_all add: mongo_FindOneAndUpdate_present [where ds' = "[]"])
    from 1 2 rows1 rows2 none show ?thesis by simp
  qed
qed


theorem Register_twice_one_record_witness:
  "filter (\<lambda>r. Fingerprint r = ''fp-a'') (rows (snd (registered_twice PostgresRegistry)))
     = [\<lparr> Fingerprint = ''fp-a'', Hostname = ''worker-09'', IP = ''10.0.9.9'', OS = ''linux'',
          LicenseKey = ''CNW-2'', RegisteredAt = 200, LastSeenAt = 300 \<rparr>]
   \<and> fst (registered_twice PostgresRegistry)
     = Inr \<lparr> Fingerprint = ''fp-a'', Hostname = ''worker-09'', IP = ''10.0.9.9'', OS = ''linux'',
          LicenseKey = ''CNW-2'', RegisteredAt = 200, LastSeenAt = 300 \<rparr>
   \<and> filter (\<lambda>r. Fingerprint r = ''fp-a'') (rows (snd (registered_twice MongoRegistry)))
     = [\<lparr> Fingerprint = ''fp-a'', Hostname = ''worker-09'', IP = ''10.0.9.9'', OS = ''linux'',
          LicenseKey = ''CNW-2'', RegisteredAt = 200, LastSeenAt = 300 \<rparr>]
   \<and> fst (registered_twice MongoRegistry)
     = Inr \<lparr> Fingerprint = ''fp-a'', Hostname = ''worker-09'', IP = ''10.0.9.9'', OS = ''linux'',
          LicenseKey = ''CNW-2'', RegisteredAt = 200, LastSeenAt = 300 \<rparr>"
proof -
  let ?r1 = "\<lparr> Fingerprint = ''fp-a'', Hostname = ''worker-01'', IP = ''10.0.1.51'',
               OS = ''linux'', LicenseKey = ''CNW-1'', RegisteredAt = 200, LastSeenAt = 200 \<rparr>"
  let ?r2 = "\<lparr> Fingerprint = ''fp-a'', Hostname = ''worker-09'', IP = ''10.0.9.9'',
               OS = ''linux'', LicenseKey = ''CNW-2'', RegisteredAt = 200, LastSeenAt = 300 \<rparr>"
  let ?d1 = "\<lparr> rows = [?r1], clock = 200, faults = [] \<rparr>"
  let ?d2 = "\<lparr> rows = [?r2], clock = 300, faults = [] \<rparr>"
  have fresh: "Fingerprint node_a \<notin> Fingerprint ` set (rows empty_db)"
    by (simp add: empty_db_def)
  have same: "Fingerprint node_a_moved = Fingerprint node_a"
    by (simp add: node_a_moved_def)
  have clk: "clock empty_db = 200" and fp: "Fingerprint node_a = ''fp-a''"
    by (simp_all add: empty_db_def node_a_def)
  have p1: "Register PostgresRegistry node_a empty_db = (Inr ?r1, ?d1)"
    by (simp add: PostgresRegistry_def PostgresRegistry_Register_def driver_call_def
          empty_db_def node_a_def Let_def)
  have p2: "Register PostgresRegistry node_a_moved (?d1\<lparr>clock := 300\<rparr>) = (Inr ?r2, ?d2)"
    by (simp add: PostgresRegistry_def PostgresRegistry_Register_def driver_call_def
          node_a_moved_def node_a_def Let_def)
  have m1: "Register MongoRegistry node_a empty_db = (Inr ?r1, ?d1)"
    by (simp add: MongoRegistry_def MongoRegistry_Register_def driver_call_def
          empty_db_def node_a_def Let_def)
  have m2: "Register MongoRegistry node_a_moved (?d1\<lparr>clock := 300\<rparr>) = (Inr ?r2, ?d2)"
    by (simp add: MongoRegistry_def MongoRegistry_Register_def driver_call_def
          node_a_moved_def node_a_def Let_def)
  have pt: "registered_twice PostgresRegistry = (Inr ?r2, ?d2)"
    using p1 p2 by (simp add: registered_twice_def)
  have mt: "registered_twice MongoRegistry = (Inr ?r2, ?d2)"
    using m1 m2 by (simp add: registered_twice_def)
  have a: "filter (\<lambda>r. Fingerprint r = ''fp-a'') (rows ?d2) = [?r2]"
    using Register_twice_one_record [OF disjI1 [OF refl] fresh same p1 p2] fp by simp
  have b: "filter (\<lambda>r. Fingerprint r = ''fp-a'') (rows ?d2) = [?r2]"
    using Register_twice_one_record [OF disjI2 [OF refl] fresh same m1 m2] fp by simp
  from a b pt mt show ?thesis by simp
qed

lemma PostgresRegistry_List_sorted:
  assumes "PostgresRegistry_List licenseKey d = (Inr ns, d')"
  shows "sorted (map RegisteredAt ns)
       \<and> set ns = {r \<in> set (rows d). LicenseKey r = licenseKey}
       \<and> length ns = length (filter (\<lambda>r. LicenseKey r = licenseKey) (rows d))"
  using assms
  by (auto simp: PostgresRegistry_List_def Let_def driver_call_keeps
        split: prod.splits option.splits)

text \<open>
  Claim C7 says that \<open>List\<close> returns the records of a license ordered by
  \<open>registered_at\<close> ascending in both backends. The PostgreSQL backend does
  (\<open>PostgresRegistry_List_sorted\<close>); the MongoDB backend requests no sort. After
  \<open>node_a\<close> registers at time 200, \<open>node_b\<close> registers from a host whose clock reads
  100 and registers again at time 300, the MongoDB backend lists \<open>node_a\<close> (registered
  at 200) before \<open>node_b\<close> (registered at 100), the PostgreSQL backend \<open>node_b\<close> before
  \<open>node_a\<close>. The order of the collection itself is the same as the order of
  \<open>last_seen_at\<close> here, so the answer of the MongoDB backend does not rest on which
  of the two the store follows.
\<close>

theorem MongoRegistry_List_not_by_registered_at:
  "fst (MongoRegistry_List ''CNW-1'' (three_registrations MongoRegistry))
     = Inr [\<lparr> Fingerprint = ''fp-a'', Hostname = ''worker-01'', IP = ''10.0.1.51'',
               OS = ''linux'', LicenseKey = ''CNW-1'', RegisteredAt = 200, LastSeenAt = 200 \<rparr>,
            \<lparr> Fingerprint = ''fp-b'', Hostname = ''worker-02'', IP = ''10.0.1.52'',
               OS = ''linux'', LicenseKey = ''CNW-1'', RegisteredAt = 100, LastSeenAt = 300 \<rparr>]
   \<and> filter (\<lambda>r. LicenseKey r = ''CNW-1'') (rows (three_registrations MongoRegistry))
     = [\<lparr> Fingerprint = ''fp-a'', Hostname = ''worker-01'', IP = ''10.0.1.51'',
           OS = ''linux'', LicenseKey = ''CNW-1'', RegisteredAt = 200, LastSeenAt = 200 \<rparr>,
        \<lparr> Fingerprint = ''fp-b'', Hostname = ''worker-02'', IP = ''10.0.1.52'',
           OS = ''linux'', LicenseKey = ''CNW-1'', RegisteredAt = 100, LastSeenAt = 300 \<rparr>]
   \<and> fst (PostgresRegistry_List ''CNW-1'' (three_registrations PostgresRegistry))
     = Inr [\<lparr> Fingerprint = ''fp-b'', Hostname = ''worker-02'', IP = ''10.0.1.52'',
               OS = ''linux'', LicenseKey = ''CNW-1'', RegisteredAt = 100, LastSeenAt = 300 \<rparr>,
            \<lparr> Fingerprint = ''fp-a'', Hostname = ''worker-01'', IP = ''10.0.1.51'',
               OS = ''linux'', LicenseKey = ''CNW-1'', RegisteredAt = 200, LastSeenAt = 200 \<rparr>]"
  by (simp add: three_registrations_def MongoRegistry_def MongoRegistry_Register_def
        MongoRegistry_List_def PostgresRegistry_def PostgresRegistry_Register_def
        PostgresRegistry_List_def driver_call_def empty_db_def node_a_def node_b_def Let_def)

subsection \<open>Manager: node limit and registry\<close>

lemma pg_upsert_fingerprints:
  "map Fingerprint (snd (pg_upsert now node rs)) =
     (if Fingerprint node \<in> Fingerprint ` set rs then map Fingerprint rs
      else map Fingerprint rs @ [Fingerprint node])"
  by (induction rs) (auto simp: Let_def split: prod.splits)

lemma mongo_FindOneAndUpdate_fingerprints:
  "map Fingerprint (snd (mongo_FindOneAndUpdate now node ds)) =
     (if Fingerprint node \<in> Fingerprint ` set ds then map Fingerprint ds
      else map Fingerprint ds @ [Fingerprint node])"
  by (induction ds) (auto simp: Let_def split: prod.splits)

lemma mongo_DeleteOne_removes:
  "distinct (map Fingerprint ds) \<Longrightarrow> fp \<notin> Fingerprint ` set (mongo_DeleteOne fp ds)"
  by (induction ds) auto

lemma PostgresRegistry_Register_rows:
  "rows (snd (PostgresRegistry_Register node s)) =
     (if fst (driver_call s) = None then snd (pg_upsert (clock s) node (rows s)) else rows s)"
  by (cases "driver_call s")
     (auto simp: PostgresRegistry_Register_def Let_def driver_call_keeps split: prod.splits)

lemma MongoRegistry_Register_rows:
  "rows (snd (MongoRegistry_Register node s)) =
     (if fst (driver_call s) = None then snd (mongo_FindOneAndUpdate (clock s) node (rows s))
      else rows s)"
  by (cases "driver_call s")
     (auto simp: MongoRegistry_Register_def Let_def driver_call_keeps split: prod.splits)

lemma Register_keeps_unique:
  assumes "reg = PostgresRegistry \<or> reg = MongoRegistry"
    and "distinct (map Fingerprint (rows s))"
    and "Register reg node s = (r, s1)"
  shows "distinct (map Fingerprint (rows s1))"
proof -
  from assms(3) have s1: "s1 = snd (Register reg node s)" by simp
  from assms(1) show ?thesis
  proof
    assume "reg = PostgresRegistry"
    with s1 assms(2) show ?thesis
      by (simp add: PostgresRegistry_def PostgresRegistry_Register_rows pg_upsert_fingerprints)
  next
    assume "reg = MongoRegistry"
    with s1 assms(2) show ?thesis
      by (simp add: MongoRegistry_def MongoRegistry_Register_rows
            mongo_FindOneAndUpdate_fingerprints)
  qed
qed

lemma Count_keeps_rows:
  assumes "reg = PostgresRegistry \<or> reg = MongoRegistry"
    and "Count reg licenseKey s = (r, s1)"
  shows "rows s1 = rows s"
proof -
  from assms(2) have s1: "s1 = snd (Count reg licenseKey s)" by simp
  from assms(1) show ?thesis
  proof
    assume "reg = PostgresRegistry"
    with s1 show ?thesis
      by (cases "driver_call s")
         (auto simp: PostgresRegistry_def PostgresRegistry_Count_def Let_def driver_call_keeps
            split: option.splits)
  next
    assume "reg = MongoRegistry"
    with s1 show ?thesis
      by (cases "driver_call s")
         (auto simp: MongoRegistry_def MongoRegistry_Count_def Let_def driver_call_keeps
            split: option.splits)
  qed
qed

lemma PostgresRegistry_Deregister_removes:
  assumes "PostgresRegistry_Deregister fp s = (None, s1)"
  shows "fp \<notin> Fingerprint ` set (rows s1)"
  using assms
  by (cases "driver_call s")
     (auto simp: PostgresRegistry_Deregister_def Let_def driver_call_keeps split: option.splits)

lemma MongoRegistry_Deregister_removes:
  assumes "MongoRegistry_Deregister fp s = (None, s1)"
    and "distinct (map Fingerprint (rows s))"
  shows "fp \<notin> Fingerprint ` set (rows s1)"
proof (cases "driver_call s")
  case (Pair e d1)
  with assms(1) have "rows s1 = mongo_DeleteOne fp (rows s)"
    by (auto simp: MongoRegistry_Deregister_def Let_def driver_call_keeps split: option.splits)
  with assms(2) show ?thesis by (simp add: mongo_DeleteOne_removes)
qed

lemma Deregister_removes:
  assumes "reg = PostgresRegistry \<or> reg = MongoRegistry"
    and "distinct (map Fingerprint (rows s))"
    and "Deregister reg fp s = (None, s1)"
  shows "fp \<notin> Fingerprint ` set (rows s1)"
  using assms(1)
proof
  assume "reg = PostgresRegistry"
  with assms(3) have "PostgresRegistry_Deregister fp s = (None, s1)"
    by (simp add: PostgresRegistry_def)
  then show ?thesis by (rule PostgresRegistry_Deregister_removes)
next
  assume "reg = MongoRegistry"
  with assms(3) have "MongoRegistry_Deregister fp s = (None, s1)"
    by (simp add: MongoRegistry_def)
  then show ?thesis using assms(2) by (rule MongoRegistry_Deregister_removes)
qed

lemma CheckNodeCount_error:
  "CheckNodeCount limits n = Some e \<Longrightarrow> errors_Is e ErrNodeLimitExceeded"
  by (auto simp: CheckNodeCount_def split: if_splits)

lemma ValidateAndEnforce_over_limit:
  assumes "client m = Some c" and "registry m = Some reg"
    and "GenerateFingerprint h = Inr fp"
    and "OnlineClient_Validate c
           \<lparr> req_LicenseKey = licenseKey, req_Fingerprint = fp, req_Version = [] \<rparr> = Inr resp"
    and "Valid resp"
    and "CheckCPU (NumCPU h) (ExtractHardwareLimits impl (Features resp)) = None"
    and "Register reg
           \<lparr> Fingerprint = fp, Hostname = (case os_Hostname h of Inr n \<Rightarrow> n | Inl e \<Rightarrow> []),
             IP = [], OS = GOOS h, LicenseKey = licenseKey,
             RegisteredAt = 0, LastSeenAt = 0 \<rparr> s = (Inr registered, s1)"
    and "Count reg licenseKey s1 = (Inr n, s2)"
    and "CheckNodeCount (ExtractHardwareLimits impl (Features resp)) n = Some e"
  shows "ValidateAndEnforce impl h m licenseKey s = ((None, Some e), snd (Deregister reg fp s2))"
  using assms by (simp add: ValidateAndEnforce_def Let_def split: prod.splits)

lemma GenerateFingerprint_stub_host: "GenerateFingerprint stub_host = Inr stub_digest"
  by (simp add: GenerateFingerprint_def stub_host_def getMACAddresses_def Let_def)

lemma stub_host_fields:
  "os_Hostname stub_host = Inr ''worker-03''" "GOOS stub_host = ''linux''"
  "NumCPU stub_host = 8"
  by (simp_all add: stub_host_def)

lemma stub_digest_other:
  "stub_digest \<noteq> []" "stub_digest \<noteq> ''fp-a''" "stub_digest \<noteq> ''fp-b''"
  "stub_digest \<noteq> ''saved-fp''"
  "''fp-a'' \<noteq> stub_digest" "''fp-b'' \<noteq> stub_digest"
  by (simp_all add: stub_digest_def)

lemma limits_max_nodes_2:
  "ExtractHardwareLimits float64_overflow_amd64 [''max_nodes'' \<mapsto> AFloat64 2]
     = \<lparr> MaxCPUPerNode = 0, MaxNodes = 2 \<rparr>"
  by (simp add: ExtractHardwareLimits_def float64_to_int_def truncate_toward_zero_def)

lemma CheckNodeCount_3_of_2:
  "CheckNodeCount \<lparr> MaxCPUPerNode = 0, MaxNodes = 2 \<rparr> 3
     = Some (Wrapf ''node limit exceeded: 3 nodes active, limit is 2''
               (Sentinel ErrNodeLimitExceeded))"
  by (simp add: CheckNodeCount_def itoa_def digits.simps)

text \<open>
  Claim C4 says that an over-limit node never keeps its registry record after a failed
  enforcement call. \<open>ValidateAndEnforce\<close> discards the error of \<open>Deregister\<close>
  (\<open>_ = m.registry.Deregister(ctx, fingerprint)\<close>), so this fails when that call fails:
  with two other nodes registered, \<open>max_nodes = 2\<close>, and a store whose third statement
  runs into the context's deadline, the call returns the node-limit error and the
  record of this node stays in the table.
\<close>

theorem failed_Deregister_leaves_node:
  "ValidateAndEnforce float64_overflow_amd64 stub_host
     \<lparr> client = Some client_max_nodes_2, registry = Some PostgresRegistry \<rparr>
     ''CNW-1'' two_nodes_db_failing
   = ((None, Some (Wrapf ''node limit exceeded: 3 nodes active, limit is 2''
                     (Sentinel ErrNodeLimitExceeded))),
      \<lparr> rows = [stored_a, stored_b, stored_c], clock = 300, faults = [] \<rparr>)"
  by (simp add: ValidateAndEnforce_def GenerateFingerprint_stub_host OnlineClient_Validate_def
        client_max_nodes_2_def limits_max_nodes_2 CheckCPU_def CheckNodeCount_3_of_2
        PostgresRegistry_def PostgresRegistry_Register_def PostgresRegistry_Count_def
        PostgresRegistry_Deregister_def driver_call_def two_nodes_db_failing_def
        stored_a_def stored_b_def stored_c_def node_a_def node_b_def stub_host_fields
        stub_digest_other Let_def)

text \<open>
  Claim C4, amended. Whenever the node-count check fails after this node has been
  registered, \<open>ValidateAndEnforce\<close> calls \<open>Deregister\<close> with this node's fingerprint on
  the registry, after \<open>Register\<close> and \<open>Count\<close>, and then returns the error of the check,
  which is \<open>ErrNodeLimitExceeded\<close>; the outcome of \<open>Deregister\<close> is discarded. With
  either backend, on a store that keeps fingerprints unique, when that \<open>Deregister\<close>
  call succeeds no record with this node's fingerprint is left in the registry when the
  call returns.
\<close>

theorem node_limit_rollback:
  assumes cl: "client m = Some c" and rg: "registry m = Some reg"
    and fp: "GenerateFingerprint h = Inr fp"
    and va: "OnlineClient_Validate c
           \<lparr> req_LicenseKey = licenseKey, req_Fingerprint = fp, req_Version = [] \<rparr> = Inr resp"
    and ok: "Valid resp"
    and cpu: "CheckCPU (NumCPU h) (ExtractHardwareLimits impl (Features resp)) = None"
    and reg: "Register reg
           \<lparr> Fingerprint = fp, Hostname = (case os_Hostname h of Inr n \<Rightarrow> n | Inl e \<Rightarrow> []),
             IP = [], OS = GOOS h, LicenseKey = licenseKey,
             RegisteredAt = 0, LastSeenAt = 0 \<rparr> s = (Inr registered, s1)"
    and cnt: "Count reg licenseKey s1 = (Inr n, s2)"
    and lim: "CheckNodeCount (ExtractHardwareLimits impl (Features resp)) n = Some e"
  shows "ValidateAndEnforce impl h m licenseKey s = ((None, Some e), snd (Deregister reg fp s2))
       \<and> errors_Is e ErrNodeLimitExceeded
       \<and> ((reg = PostgresRegistry \<or> reg = MongoRegistry)
            \<and> distinct (map Fingerprint (rows s))
            \<and> fst (Deregister reg fp s2) = None
          \<longrightarrow> fp \<notin> Fingerprint ` set (rows (snd (ValidateAndEnforce impl h m licenseKey s))))"
proof -
  have run: "ValidateAndEnforce impl h m licenseKey s
               = ((None, Some e), snd (Deregister reg fp s2))"
    using cl rg fp va ok cpu reg cnt lim by (rule ValidateAndEnforce_over_limit)
  have err: "errors_Is e ErrNodeLimitExceeded"
    using lim by (rule CheckNodeCount_error)
  have gone: "fp \<notin> Fingerprint ` set (rows (snd (ValidateAndEnforce impl h m licenseKey s)))"
    if b: "reg = PostgresRegistry \<or> reg = MongoRegistry"
      and u: "distinct (map Fingerprint (rows s))"
      and d: "fst (Deregister reg fp s2) = None"
  proof -
    from b u reg have "distinct (map Fingerprint (rows s1))" by (rule Register_keeps_unique)
    moreover from b cnt have "rows s2 = rows s1" by (rule Count_keeps_rows)
    ultimately have u2: "distinct (map Fingerprint (rows s2))" by simp
    from d have "Deregister reg fp s2 = (None, snd (Deregister reg fp s2))"
      by (simp add: prod_eq_iff)
    with b u2 have "fp \<notin> Fingerprint ` set (rows (snd (Deregister reg fp s2)))"
      by (rule Deregister_removes)
    with run show ?thesis by simp
  qed
  from run err gone show ?thesis by (intro conjI impI) (simp_all only: simp_thms)
qed


theorem node_limit_rollback_witness:
  "ValidateAndEnforce float64_overflow_amd64 stub_host
     \<lparr> client = Some client_max_nodes_2, registry = Some MongoRegistry \<rparr>
     ''CNW-1'' two_nodes_db
   = ((None, Some (Wrapf ''node limit exceeded: 3 nodes active, limit is 2''
                     (Sentinel ErrNodeLimitExceeded))),
      two_nodes_db)
   \<and> stub_digest \<notin> Fingerprint ` set (rows (snd
        (ValidateAndEnforce float64_overflow_amd64 stub_host
           \<lparr> client = Some client_max_nodes_2, registry = Some MongoRegistry \<rparr>
           ''CNW-1'' two_nodes_db)))"
proof -
  let ?m = "\<lparr> client = Some client_max_nodes_2, registry = Some MongoRegistry \<rparr>"
  let ?resp = "\<lparr> Valid = True, Reason = [], Plan = ''enterprise'', ExpiresAt = None,
                Features = [''max_nodes'' \<mapsto> AFloat64 2], ActivationRemaining = 0 \<rparr>"
  let ?e = "Wrapf ''node limit exceeded: 3 nodes active, limit is 2''
              (Sentinel ErrNodeLimitExceeded)"
  let ?s1 = "\<lparr> rows = [stored_a, stored_b, stored_c], clock = 300, faults = [] \<rparr>"
  have cl: "client ?m = Some client_max_nodes_2" by simp
  have rg: "registry ?m = Some MongoRegistry" by simp
  have va: "OnlineClient_Validate client_max_nodes_2
              \<lparr> req_LicenseKey = ''CNW-1'', req_Fingerprint = stub_digest, req_Version = [] \<rparr>
            = Inr ?resp"
    by (simp add: OnlineClient_Validate_def client_max_nodes_2_def)
  have ok: "Valid ?resp" by simp
  have cpu: "CheckCPU (NumCPU stub_host)
               (ExtractHardwareLimits float64_overflow_amd64 (Features ?resp)) = None"
    by (simp add: limits_max_nodes_2 CheckCPU_def)
  have reg: "Register MongoRegistry
               \<lparr> Fingerprint = stub_digest,
                 Hostname = (case os_Hostname stub_host of Inr n \<Rightarrow> n | Inl e \<Rightarrow> []),
                 IP = [], OS = GOOS stub_host, LicenseKey = ''CNW-1'',
                 RegisteredAt = 0, LastSeenAt = 0 \<rparr> two_nodes_db
             = (Inr stored_c, ?s1)"
    by (simp add: MongoRegistry_def MongoRegistry_Register_def driver_call_def two_nodes_db_def
          stored_a_def stored_b_def stored_c_def node_a_def node_b_def stub_host_fields
          stub_digest_other Let_def)
  have cnt: "Count MongoRegistry ''CNW-1'' ?s1 = (Inr 3, ?s1)"
    by (simp add: MongoRegistry_def MongoRegistry_Count_def driver_call_def
          stored_a_def stored_b_def stored_c_def node_a_def node_b_def)
  have lim: "CheckNodeCount (ExtractHardwareLimits float64_overflow_amd64 (Features ?resp)) 3
               = Some ?e"
    by (simp add: limits_max_nodes_2 CheckNodeCount_3_of_2)
  have der: "Deregister MongoRegistry stub_digest ?s1 = (None, two_nodes_db)"
    by (simp add: MongoRegistry_def MongoRegistry_Deregister_def driver_call_def two_nodes_db_def
          stored_a_def stored_b_def stored_c_def node_a_def node_b_def stub_digest_other)
  have uniq: "distinct (map Fingerprint (rows two_nodes_db))"
    by (simp add: two_nodes_db_def stored_a_def stored_b_def node_a_def node_b_def)
  note t = node_limit_rollback
             [OF cl rg GenerateFingerprint_stub_host va ok cpu reg cnt lim]
  from conjunct1 [OF t] der
  have a: "ValidateAndEnforce float64_overflow_amd64 stub_host ?m ''CNW-1'' two_nodes_db
             = ((None, Some ?e), two_nodes_db)"
    by simp
  from der have d: "fst (Deregister MongoRegistry stub_digest ?s1) = None" by simp
  from conjunct2 [OF conjunct2 [OF t]] uniq d
  have b: "stub_digest \<notin> Fingerprint ` set (rows (snd
             (ValidateAndEnforce float64_overflow_amd64 stub_host ?m ''CNW-1'' two_nodes_db)))"
    by blast
  from a b show ?thesis by (rule conjI)
qed

subsection \<open>Manager: the invalid license\<close>

text \<open>
  Claim C5. When the validation response has \<open>valid = false\<close>, \<open>ValidateAndEnforce\<close>
  returns a \<open>LicenseInfo\<close> with \<open>Valid = false\<close> (license key and fingerprint filled
  in) and a nil error, whatever the features of the response and the CPU count of the
  host are, and leaves the state of the registry as it was. On a registry that records
  its calls the record is unchanged: no \<open>Register\<close>, \<open>Count\<close> or \<open>Deregister\<close> call is
  made.
\<close>

theorem invalid_license_skips_enforcement:
  assumes cl: "client m = Some c"
    and fp: "GenerateFingerprint h = Inr fp"
    and va: "OnlineClient_Validate c
           \<lparr> req_LicenseKey = licenseKey, req_Fingerprint = fp, req_Version = [] \<rparr> = Inr resp"
    and inv: "\<not> Valid resp"
  shows "ValidateAndEnforce impl h m licenseKey s
           = ((Some \<lparr> info_Valid = False, info_LicenseKey = licenseKey, info_Plan = [],
                      info_Features = Map.empty, info_ExpiresAt = None,
                      info_Fingerprint = fp, info_NodeCount = 0 \<rparr>, None), s)
       \<and> ValidateAndEnforce impl h \<lparr> client = Some c, registry = Some (recording reg) \<rparr>
             licenseKey (t, calls)
           = ((Some \<lparr> info_Valid = False, info_LicenseKey = licenseKey, info_Plan = [],
                      info_Features = Map.empty, info_ExpiresAt = None,
                      info_Fingerprint = fp, info_NodeCount = 0 \<rparr>, None), (t, calls))"
  using assms by (simp add: ValidateAndEnforce_def)

theorem invalid_license_skips_enforcement_witness:
  "ValidateAndEnforce float64_overflow_amd64 stub_host
     \<lparr> client = Some client_rejected, registry = Some (recording PostgresRegistry) \<rparr>
     ''CNW-1'' (two_nodes_db_failing, [])
   = ((Some \<lparr> info_Valid = False, info_LicenseKey = ''CNW-1'', info_Plan = [],
              info_Features = Map.empty, info_ExpiresAt = None,
              info_Fingerprint = stub_digest, info_NodeCount = 0 \<rparr>, None),
      (two_nodes_db_failing, []))"
proof -
  let ?m = "\<lparr> client = Some client_rejected, registry = Some (recording PostgresRegistry) \<rparr>"
  let ?resp = "\<lparr> Valid = False, Reason = ''license not found'', Plan = [], ExpiresAt = None,
                Features = [''max_cpu_per_node'' \<mapsto> AFloat64 1], ActivationRemaining = 0 \<rparr>"
  have cl: "client ?m = Some client_rejected" by simp
  have va: "OnlineClient_Validate client_rejected
              \<lparr> req_LicenseKey = ''CNW-1'', req_Fingerprint = stub_digest, req_Version = [] \<rparr>
            = Inr ?resp"
    by (simp add: OnlineClient_Validate_def client_rejected_def)
  have inv: "\<not> Valid ?resp" by simp
  show ?thesis
    by (rule conjunct1
          [OF invalid_license_skips_enforcement [OF cl GenerateFingerprint_stub_host va inv]])
qed

subsection \<open>Manager: which fingerprint is used\<close>














end
